theory Spec2Isabelle
  imports Main
begin

section \<open>Go values the package handles\<close>

text \<open>
  \<^verbatim>\<open>time.Duration\<close> is a signed 64-bit count of nanoseconds. The package only stores
  durations and builds the two constants \<^verbatim>\<open>10*time.Second\<close> and \<^verbatim>\<open>72*time.Hour\<close>,
  both far below \<open>2^63\<close>, so a duration is an \<open>int\<close> here.
\<close>

type_synonym duration = int

definition Second :: duration where
  "Second = 1000000000"

definition Minute :: duration where
  "Minute = 60 * Second"

definition Hour :: duration where
  "Hour = 60 * Minute"

text \<open>
  A Go \<^verbatim>\<open>error\<close> value. \<^verbatim>\<open>errors.New(s)\<close> is \<open>ErrorsNew s\<close>;
  \<^verbatim>\<open>fmt.Errorf(p + "%w", e)\<close> is \<open>Errorf_w p e\<close>: its text is \<open>p\<close> followed by the
  text of \<open>e\<close>, and \<^verbatim>\<open>errors.Unwrap\<close> gives \<open>e\<close> back. A nil error is \<open>None\<close> of
  \<open>go_error option\<close>.
\<close>

datatype go_error = ErrorsNew string | Errorf_w string go_error

fun Error :: "go_error \<Rightarrow> string" where
  "Error (ErrorsNew s) = s"
| "Error (Errorf_w p e) = p @ Error e"

fun Unwrap :: "go_error \<Rightarrow> go_error option" where
  "Unwrap (ErrorsNew s) = None"
| "Unwrap (Errorf_w p e) = Some e"

text \<open>
  The three functions of the standard library the package calls on strings:
  \<^verbatim>\<open>strings.HasSuffix\<close>, \<^verbatim>\<open>strings.TrimRight\<close> (which removes every trailing
  character that occurs in the cutset) and \<^verbatim>\<open>fmt.Sprintf("%s %s", a, b)\<close>.
\<close>

definition HasSuffix :: "string \<Rightarrow> string \<Rightarrow> bool" where
  "HasSuffix s suffix =
     (length suffix \<le> length s \<and> drop (length s - length suffix) s = suffix)"

definition TrimRight :: "string \<Rightarrow> string \<Rightarrow> string" where
  "TrimRight s cutset = rev (dropWhile (\<lambda>c. c \<in> set cutset) (rev s))"

definition Sprintf_s_s :: "string \<Rightarrow> string \<Rightarrow> string" where
  "Sprintf_s_s a b = a @ '' '' @ b"

text \<open>A Go map from strings to strings, read with \<^verbatim>\<open>m[k]\<close>: a missing key reads as \<^verbatim>\<open>""\<close>.\<close>

definition index :: "(string \<rightharpoonup> string) \<Rightarrow> string \<Rightarrow> string" where
  "index m k = (case m k of None \<Rightarrow> '''' | Some v \<Rightarrow> v)"

text \<open>
  \<^verbatim>\<open>strings.TrimSuffix\<close> removes one occurrence of the suffix, if it is there, and
  \<^verbatim>\<open>strings.Join\<close> puts the separator between the elements.
\<close>

definition TrimSuffix :: "string \<Rightarrow> string \<Rightarrow> string" where
  "TrimSuffix s suffix = (if HasSuffix s suffix then take (length s - length suffix) s else s)"

fun Join :: "string list \<Rightarrow> string \<Rightarrow> string" where
  "Join [] sep = []"
| "Join [x] sep = x"
| "Join (x # y # zs) sep = x @ sep @ Join (y # zs) sep"

text \<open>
  \<^verbatim>\<open>strconv.Atoi\<close>, with \<open>None\<close> for its error: an optional sign, then one decimal digit
  or more and nothing else, denoting a number that fits the 64-bit \<^verbatim>\<open>int\<close>.
\<close>

definition digit :: "char \<Rightarrow> int option" where
  "digit c =
     map_of [(CHR ''0'', 0), (CHR ''1'', 1), (CHR ''2'', 2), (CHR ''3'', 3), (CHR ''4'', 4),
             (CHR ''5'', 5), (CHR ''6'', 6), (CHR ''7'', 7), (CHR ''8'', 8), (CHR ''9'', 9)] c"

fun digits :: "int \<Rightarrow> string \<Rightarrow> int option" where
  "digits acc [] = Some acc"
| "digits acc (c # cs) =
     (case digit c of None \<Rightarrow> None | Some k \<Rightarrow> digits (acc * 10 + k) cs)"

definition number :: "string \<Rightarrow> int option" where
  "number body = (if body = [] then None else digits 0 body)"

definition in_int_range :: "int option \<Rightarrow> int option" where
  "in_int_range x =
     (case x of
        None \<Rightarrow> None
      | Some v \<Rightarrow> if - (2 ^ 63) \<le> v \<and> v \<le> 2 ^ 63 - 1 then Some v else None)"

definition Atoi :: "string \<Rightarrow> int option" where
  "Atoi s =
     (case s of
        [] \<Rightarrow> None
      | c # cs \<Rightarrow>
          if c = CHR ''-'' then in_int_range (map_option uminus (number cs))
          else if c = CHR ''+'' then in_int_range (number cs)
          else in_int_range (number s))"

text \<open>The product of two 64-bit integers wraps around; \<open>wrap64\<close> is the value that is left.\<close>

definition wrap64 :: "int \<Rightarrow> int" where
  "wrap64 x = (x + 2 ^ 63) mod 2 ^ 64 - 2 ^ 63"

text \<open>
  What the process sees of its surroundings through \<^verbatim>\<open>os.Getenv\<close> and \<^verbatim>\<open>os.ReadFile\<close>: the
  environment variables that are set, and the content of each file that can be read.
  \<^verbatim>\<open>os.Getenv\<close> gives \<^verbatim>\<open>""\<close> for a variable that is not set.
\<close>

record os_env =
  vars :: "string \<rightharpoonup> string"
  files :: "string \<rightharpoonup> string"

definition Getenv :: "os_env \<Rightarrow> string \<Rightarrow> string" where
  "Getenv env name = index (vars env) name"

section \<open>Names of the environment variables\<close>

definition envNamespace :: string where
  "envNamespace = ''SAKURACLOUD_''"

definition EnvAccessToken :: string where
  "EnvAccessToken = envNamespace @ ''ACCESS_TOKEN''"

definition EnvAccessTokenSecret :: string where
  "EnvAccessTokenSecret = envNamespace @ ''ACCESS_TOKEN_SECRET''"

definition EnvTTL :: string where
  "EnvTTL = envNamespace @ ''TTL''"

definition EnvPropagationTimeout :: string where
  "EnvPropagationTimeout = envNamespace @ ''PROPAGATION_TIMEOUT''"

definition EnvPollingInterval :: string where
  "EnvPollingInterval = envNamespace @ ''POLLING_INTERVAL''"

definition EnvHTTPTimeout :: string where
  "EnvHTTPTimeout = envNamespace @ ''HTTP_TIMEOUT''"

section \<open>Data\<close>

text \<open>
  \<^verbatim>\<open>http.Client\<close>: the package sets its \<^verbatim>\<open>Timeout\<close> and nothing else. The
  \<^verbatim>\<open>HTTPClient\<close> of a \<^verbatim>\<open>Config\<close> is a pointer, nil being \<open>None\<close>.
\<close>

record http_Client =
  Client_Timeout :: duration

record Config =
  Token :: string
  Secret :: string
  PropagationTimeout :: duration
  PollingInterval :: duration
  TTL :: int
  HTTPClient :: "http_Client option"

text \<open>
  \<^verbatim>\<open>client.Options\<close> and \<^verbatim>\<open>api.CallerOptions\<close> of the SakuraCloud SDK, with the fields
  this package reads or writes. \<^verbatim>\<open>CallerOptions\<close> embeds \<^verbatim>\<open>*client.Options\<close>, so
  \<^verbatim>\<open>opts.UserAgent\<close> is \<open>UserAgent (Options opts)\<close>.
\<close>

record client_Options =
  AccessToken :: string
  AccessTokenSecret :: string
  HttpClient :: "http_Client option"
  UserAgent :: string

record CallerOptions =
  Options :: client_Options
  APIRootURL :: string
  DefaultZone :: string
  Zones :: "string list"

text \<open>
  The package-level variables of the SDK that \<^verbatim>\<open>newCaller\<close> assigns:
  \<^verbatim>\<open>defaults.DefaultStatePollingTimeout\<close>, \<^verbatim>\<open>iaas.APIDefaultZone\<close>,
  \<^verbatim>\<open>iaas.SakuraCloudZones\<close> and \<^verbatim>\<open>iaas.SakuraCloudAPIRoot\<close>.
\<close>

record globals =
  DefaultStatePollingTimeout :: duration
  APIDefaultZone :: string
  SakuraCloudZones :: "string list"
  SakuraCloudAPIRoot :: string

text \<open>
  \<^verbatim>\<open>DNSProvider\<close>. Its fields are unexported and the only place that builds one is the last
  statement of \<^verbatim>\<open>NewDNSProviderConfig\<close>, which stores the configuration it has checked
  against nil; the field is therefore the configuration itself. The client is whatever
  \<^verbatim>\<open>iaas.NewDNSOp\<close> returns, a type parameter.
\<close>

record 'cl DNSProvider =
  config :: Config
  client :: 'cl

text \<open>\<^verbatim>\<open>dns01.ChallengeInfo\<close>, with the two fields the package reads.\<close>

record ChallengeInfo =
  EffectiveFQDN :: string
  Value :: string

section \<open>Collaborators outside the file\<close>

text \<open>
  What the file takes from the challenge framework as it finds it: the three default
  constants of \<^verbatim>\<open>dns01\<close>, the user agent string, and \<^verbatim>\<open>dns01.GetChallengeInfo\<close>. The last one
  works out the name under which the record has to appear; it may consult the process
  environment and the DNS as they are at the moment of the call, so it gets both beside
  the domain and the key authorisation, and two calls at different moments may differ.
  They are parameters: every theorem holds for whatever they are.
\<close>

record 'r lego =
  DefaultTTL :: int
  DefaultPropagationTimeout :: duration
  DefaultPollingInterval :: duration
  useragent_Get :: string
  GetChallengeInfo :: "os_env \<Rightarrow> 'r \<Rightarrow> string \<Rightarrow> string \<Rightarrow> ChallengeInfo"

text \<open>
  What the file takes from the SakuraCloud SDK: the outcome of \<^verbatim>\<open>api.DefaultOption()\<close>,
  \<^verbatim>\<open>api.MergeOptions\<close> (variadic), the constant \<^verbatim>\<open>iaas.DefaultUserAgent\<close>,
  \<^verbatim>\<open>iaas.NewClientWithOptions\<close> and \<^verbatim>\<open>iaas.NewDNSOp\<close>.
\<close>

record ('ca, 'cl) sacloud =
  DefaultOption :: "go_error + CallerOptions"
  MergeOptions :: "CallerOptions list \<Rightarrow> CallerOptions"
  DefaultUserAgent :: string
  NewClientWithOptions :: "client_Options \<Rightarrow> 'ca"
  NewDNSOp :: "'ca \<Rightarrow> 'cl"

text \<open>
  The two methods of \<^verbatim>\<open>DNSProvider\<close> that talk to the DNS API are defined in another file
  of the package. Each takes the provider and the record's name and value
  (\<^verbatim>\<open>addTXTRecord\<close> also the TTL), acts on the remote DNS state \<open>'r\<close> and returns an
  error or nil. What one invocation does to the remote state, and in how many requests,
  is up to them.
\<close>

record ('cl, 'r) wrapper =
  addTXTRecord :: "'cl DNSProvider \<Rightarrow> string \<Rightarrow> string \<Rightarrow> int \<Rightarrow> 'r \<Rightarrow> go_error option \<times> 'r"
  cleanupTXTRecord :: "'cl DNSProvider \<Rightarrow> string \<Rightarrow> string \<Rightarrow> 'r \<Rightarrow> go_error option \<times> 'r"

text \<open>
  The state \<^verbatim>\<open>Present\<close> and \<^verbatim>\<open>CleanUp\<close> run in: the process environment, the remote DNS
  state, and a log of the invocations of the two methods above, in order. The log is a
  ghost variable: nothing reads it, it only records that an invocation took place and with
  which arguments.
\<close>

datatype api_call = AddTXT string string int | CleanupTXT string string

fun record_name :: "api_call \<Rightarrow> string" where
  "record_name (AddTXT fqdn v ttl) = fqdn"
| "record_name (CleanupTXT fqdn v) = fqdn"

fun record_value :: "api_call \<Rightarrow> string" where
  "record_value (AddTXT fqdn v ttl) = v"
| "record_value (CleanupTXT fqdn v) = v"

record 'r world =
  environ :: os_env
  remote :: 'r
  calls :: "api_call list"

definition call_addTXTRecord ::
  "('cl, 'r) wrapper \<Rightarrow> 'cl DNSProvider \<Rightarrow> string \<Rightarrow> string \<Rightarrow> int \<Rightarrow> 'r world
     \<Rightarrow> go_error option \<times> 'r world" where
  "call_addTXTRecord W d fqdn v ttl w =
     (let (err, r) = addTXTRecord W d fqdn v ttl (remote w)
      in (err, w\<lparr>remote := r, calls := calls w @ [AddTXT fqdn v ttl]\<rparr>))"

definition call_cleanupTXTRecord ::
  "('cl, 'r) wrapper \<Rightarrow> 'cl DNSProvider \<Rightarrow> string \<Rightarrow> string \<Rightarrow> 'r world
     \<Rightarrow> go_error option \<times> 'r world" where
  "call_cleanupTXTRecord W d fqdn v w =
     (let (err, r) = cleanupTXTRecord W d fqdn v (remote w)
      in (err, w\<lparr>remote := r, calls := calls w @ [CleanupTXT fqdn v]\<rparr>))"

section \<open>The readers of the environment\<close>

text \<open>
  Modelled from the spec: the functions of the framework's \<^verbatim>\<open>env\<close> package that the file
  calls (\<^verbatim>\<open>env.Get\<close>, \<^verbatim>\<open>env.GetOrDefaultInt\<close>, \<^verbatim>\<open>env.GetOrDefaultSecond\<close>, and
  \<^verbatim>\<open>env.GetOrFile\<close> under them) are not in the file. The specification says of them no more
  than that the configuration is populated from environment variables, so the definitions
  follow what the package documents of itself:
  \<^item> \<^verbatim>\<open>GetOrFile\<close> gives the value of the variable when it is not empty; otherwise, when the
    variable of the same name followed by \<^verbatim>\<open>_FILE\<close> is not empty, the content of the file it
    names, without one final newline (and \<^verbatim>\<open>""\<close> when the file cannot be read); otherwise
    \<^verbatim>\<open>""\<close>;
  \<^item> \<^verbatim>\<open>Get\<close> resolves every name with \<^verbatim>\<open>GetOrFile\<close>, fails naming those that came out
    empty, and otherwise returns the map from the names to their values;
  \<^item> \<^verbatim>\<open>GetOrDefaultInt\<close> gives the integer the resolved value denotes, and the fallback when
    it denotes none;
  \<^item> \<^verbatim>\<open>GetOrDefaultSecond\<close> gives that many seconds, and the fallback when the resolved
    value denotes no integer or a negative one.
\<close>

definition GetOrFile :: "os_env \<Rightarrow> string \<Rightarrow> string" where
  "GetOrFile env envVar =
     (let envVarValue = Getenv env envVar
      in if envVarValue \<noteq> '''' then envVarValue
         else (let fileVarValue = Getenv env (envVar @ ''_FILE'')
               in if fileVarValue = '''' then envVarValue
                  else (case files env fileVarValue of
                          None \<Rightarrow> ''''
                        | Some fileContents \<Rightarrow> TrimSuffix fileContents [CHR 0x0A])))"

definition env_Get :: "os_env \<Rightarrow> string list \<Rightarrow> go_error + (string \<rightharpoonup> string)" where
  "env_Get env names =
     (let missingEnvVars = filter (\<lambda>envVar. GetOrFile env envVar = '''') names
      in if length missingEnvVars > 0
         then Inl (ErrorsNew (''some credentials information are missing: ''
                                @ Join missingEnvVars '',''))
         else Inr (map_of (map (\<lambda>envVar. (envVar, GetOrFile env envVar)) names)))"

definition GetOrDefaultInt :: "os_env \<Rightarrow> string \<Rightarrow> int \<Rightarrow> int" where
  "GetOrDefaultInt env envVar defaultValue =
     (case Atoi (GetOrFile env envVar) of None \<Rightarrow> defaultValue | Some v \<Rightarrow> v)"

definition GetOrDefaultSecond :: "os_env \<Rightarrow> string \<Rightarrow> duration \<Rightarrow> duration" where
  "GetOrDefaultSecond env envVar defaultValue =
     (case Atoi (GetOrFile env envVar) of
        None \<Rightarrow> defaultValue
      | Some v \<Rightarrow> if v < 0 then defaultValue else wrap64 (v * Second))"

section \<open>The functions of the file\<close>

definition NewDefaultConfig :: "'r lego \<Rightarrow> os_env \<Rightarrow> Config" where
  "NewDefaultConfig L env =
     \<lparr>Token = '''',
      Secret = '''',
      PropagationTimeout = GetOrDefaultSecond env EnvPropagationTimeout (DefaultPropagationTimeout L),
      PollingInterval = GetOrDefaultSecond env EnvPollingInterval (DefaultPollingInterval L),
      TTL = GetOrDefaultInt env EnvTTL (DefaultTTL L),
      HTTPClient = Some \<lparr>Client_Timeout = GetOrDefaultSecond env EnvHTTPTimeout (10 * Second)\<rparr>\<rparr>"

text \<open>
  \<^verbatim>\<open>newCaller\<close> gets a pointer to the options and writes through it, so the model
  returns the options as they are afterwards, beside the caller and the globals.
\<close>

definition newCaller ::
  "('ca, 'cl) sacloud \<Rightarrow> CallerOptions \<Rightarrow> globals \<Rightarrow> 'ca \<times> CallerOptions \<times> globals" where
  "newCaller S opts g =
     (let opts1 = (if UserAgent (Options opts) = ''''
                   then opts\<lparr>Options := (Options opts)\<lparr>UserAgent := DefaultUserAgent S\<rparr>\<rparr>
                   else opts);
          caller = NewClientWithOptions S (Options opts1);
          g1 = g\<lparr>DefaultStatePollingTimeout := 72 * Hour\<rparr>;
          g2 = (if DefaultZone opts1 \<noteq> '''' then g1\<lparr>APIDefaultZone := DefaultZone opts1\<rparr> else g1);
          g3 = (if length (Zones opts1) > 0 then g2\<lparr>SakuraCloudZones := Zones opts1\<rparr> else g2);
          (opts3, g4) =
            (if APIRootURL opts1 \<noteq> ''''
             then (let opts2 = (if HasSuffix (APIRootURL opts1) ''/''
                                then opts1\<lparr>APIRootURL := TrimRight (APIRootURL opts1) ''/''\<rparr>
                                else opts1)
                   in (opts2, g3\<lparr>SakuraCloudAPIRoot := APIRootURL opts2\<rparr>))
             else (opts1, g3))
      in (caller, opts3, g4))"

definition newCallerWithOptions ::
  "('ca, 'cl) sacloud \<Rightarrow> CallerOptions \<Rightarrow> globals \<Rightarrow> 'ca \<times> CallerOptions \<times> globals" where
  "newCallerWithOptions S opts g = newCaller S opts g"

text \<open>
  A constructor returns either \<^verbatim>\<open>(nil, err)\<close>, which is \<open>Inl err\<close>, or
  \<^verbatim>\<open>(&DNSProvider{...}, nil)\<close>, which is \<open>Inr\<close> of the provider; the globals come back
  beside it.
\<close>

definition NewDNSProviderConfig ::
  "'r lego \<Rightarrow> ('ca, 'cl) sacloud \<Rightarrow> Config option \<Rightarrow> globals
     \<Rightarrow> (go_error + 'cl DNSProvider) \<times> globals" where
  "NewDNSProviderConfig L S cfg g =
     (case cfg of
        None \<Rightarrow> (Inl (ErrorsNew ''sakuracloud: the configuration of the DNS provider is nil''), g)
      | Some c \<Rightarrow>
          if Token c = '''' then (Inl (ErrorsNew ''sakuracloud: AccessToken is missing''), g)
          else if Secret c = '''' then (Inl (ErrorsNew ''sakuracloud: AccessSecret is missing''), g)
          else (case DefaultOption S of
                  Inl err \<Rightarrow> (Inl (Errorf_w ''sakuracloud: '' err), g)
                | Inr defaultOption \<Rightarrow>
                    (let options =
                           \<lparr>Options =
                              \<lparr>AccessToken = Token c,
                               AccessTokenSecret = Secret c,
                               HttpClient = HTTPClient c,
                               UserAgent = Sprintf_s_s (DefaultUserAgent S) (useragent_Get L)\<rparr>,
                            APIRootURL = '''',
                            DefaultZone = '''',
                            Zones = []\<rparr>;
                         (caller, opts', g') =
                           newCallerWithOptions S (MergeOptions S [defaultOption, options]) g
                     in (Inr \<lparr>config = c, client = NewDNSOp S caller\<rparr>, g'))))"

definition NewDNSProvider ::
  "'r lego \<Rightarrow> ('ca, 'cl) sacloud \<Rightarrow> os_env \<Rightarrow> globals
     \<Rightarrow> (go_error + 'cl DNSProvider) \<times> globals" where
  "NewDNSProvider L S env g =
     (case env_Get env [EnvAccessToken, EnvAccessTokenSecret] of
        Inl err \<Rightarrow> (Inl (Errorf_w ''sakuracloud: '' err), g)
      | Inr values \<Rightarrow>
          (let c = NewDefaultConfig L env;
               c1 = c\<lparr>Token := index values EnvAccessToken\<rparr>;
               c2 = c1\<lparr>Secret := index values EnvAccessTokenSecret\<rparr>
           in NewDNSProviderConfig L S (Some c2) g))"

definition Present ::
  "'r lego \<Rightarrow> ('cl, 'r) wrapper \<Rightarrow> 'cl DNSProvider \<Rightarrow> string \<Rightarrow> string \<Rightarrow> string \<Rightarrow> 'r world
     \<Rightarrow> go_error option \<times> 'r world" where
  "Present L W d domain token keyAuth w =
     (let info = GetChallengeInfo L (environ w) (remote w) domain keyAuth;
          (err, w') = call_addTXTRecord W d (EffectiveFQDN info) (Value info) (TTL (config d)) w
      in (case err of
            Some e \<Rightarrow> (Some (Errorf_w ''sakuracloud: '' e), w')
          | None \<Rightarrow> (None, w')))"

definition CleanUp ::
  "'r lego \<Rightarrow> ('cl, 'r) wrapper \<Rightarrow> 'cl DNSProvider \<Rightarrow> string \<Rightarrow> string \<Rightarrow> string \<Rightarrow> 'r world
     \<Rightarrow> go_error option \<times> 'r world" where
  "CleanUp L W d domain token keyAuth w =
     (let info = GetChallengeInfo L (environ w) (remote w) domain keyAuth;
          (err, w') = call_cleanupTXTRecord W d (EffectiveFQDN info) (Value info) w
      in (case err of
            Some e \<Rightarrow> (Some (Errorf_w ''sakuracloud: '' e), w')
          | None \<Rightarrow> (None, w')))"

text \<open>
  \<^verbatim>\<open>Timeout\<close> reads two fields of the configuration and assigns nothing: the state \<open>s\<close>
  it runs in, whatever it holds, comes back as it was.
\<close>

definition Timeout :: "'cl DNSProvider \<Rightarrow> 's \<Rightarrow> (duration \<times> duration) \<times> 's" where
  "Timeout d s = ((PropagationTimeout (config d), PollingInterval (config d)), s)"

text \<open>
  The options \<^verbatim>\<open>NewDNSProviderConfig\<close> builds from a configuration before merging them
  with the default ones, under a name of their own.
\<close>

definition provider_options :: "'r lego \<Rightarrow> ('ca, 'cl) sacloud \<Rightarrow> Config \<Rightarrow> CallerOptions" where
  "provider_options L S c =
     \<lparr>Options =
        \<lparr>AccessToken = Token c,
         AccessTokenSecret = Secret c,
         HttpClient = HTTPClient c,
         UserAgent = Sprintf_s_s (DefaultUserAgent S) (useragent_Get L)\<rparr>,
      APIRootURL = '''',
      DefaultZone = '''',
      Zones = []\<rparr>"

section \<open>An instance of the collaborators\<close>

text \<open>
  Concrete collaborators and states, on which the functions can be evaluated. The remote
  state holds the CNAME records the resolver sees, the TXT records of the zone and the
  requests the API has served. \<open>GetChallengeInfo\<close> of the instance puts the record under
  \<^verbatim>\<open>_acme-challenge.<domain>.\<close> and follows a CNAME found there; each helper of the
  instance looks the zone up and then updates its records, two requests; merging takes the
  credentials of the second options and the rest of the first; the caller and the client
  are the options themselves.
\<close>

datatype request = Find | UpdateSettings

record dns_state =
  cnames :: "(string \<times> string) list"
  txt_records :: "(string \<times> string) list"
  requests :: "request list"

definition example_lego :: "dns_state lego" where
  "example_lego =
     \<lparr>DefaultTTL = 120,
      DefaultPropagationTimeout = 60 * Second,
      DefaultPollingInterval = 2 * Second,
      useragent_Get = ''goacme-lego/4'',
      GetChallengeInfo =
        (\<lambda>env r domain keyAuth.
           \<lparr>EffectiveFQDN =
              (case map_of (cnames r) (''_acme-challenge.'' @ domain @ ''.'') of
                 None \<Rightarrow> ''_acme-challenge.'' @ domain @ ''.''
               | Some target \<Rightarrow> target),
            Value = keyAuth\<rparr>)\<rparr>"

definition example_options :: CallerOptions where
  "example_options =
     \<lparr>Options = \<lparr>AccessToken = '''', AccessTokenSecret = '''', HttpClient = None, UserAgent = ''''\<rparr>,
      APIRootURL = ''https://dns.test/api//'',
      DefaultZone = ''is1a'',
      Zones = [''is1a'', ''tk1a'']\<rparr>"

definition example_sacloud :: "(client_Options, client_Options) sacloud" where
  "example_sacloud =
     \<lparr>DefaultOption = Inr example_options,
      MergeOptions =
        (\<lambda>os. case os of
                 [a, b] \<Rightarrow> a\<lparr>Options := Options b\<rparr>
               | _ \<Rightarrow> example_options),
      DefaultUserAgent = ''sacloud/iaas-api-go'',
      NewClientWithOptions = (\<lambda>opts. opts),
      NewDNSOp = (\<lambda>c. c)\<rparr>"

definition example_wrapper :: "(client_Options, dns_state) wrapper" where
  "example_wrapper =
     \<lparr>addTXTRecord =
        (\<lambda>d fqdn v ttl r.
           (None, r\<lparr>txt_records := txt_records r @ [(fqdn, v)], requests := requests r @ [Find, UpdateSettings]\<rparr>)),
      cleanupTXTRecord =
        (\<lambda>d fqdn v r.
           (None, r\<lparr>txt_records := removeAll (fqdn, v) (txt_records r),
                     requests := requests r @ [Find, UpdateSettings]\<rparr>))\<rparr>"

definition example_globals :: globals where
  "example_globals =
     \<lparr>DefaultStatePollingTimeout = 20 * Minute,
      APIDefaultZone = ''tk1a'',
      SakuraCloudZones = [''tk1a''],
      SakuraCloudAPIRoot = ''https://secure.sakura.ad.jp/cloud/zone''\<rparr>"

definition example_config :: Config where
  "example_config =
     \<lparr>Token = ''tok'', Secret = ''sec'', PropagationTimeout = 60 * Second,
      PollingInterval = 2 * Second, TTL = 120, HTTPClient = None\<rparr>"

definition example_provider :: "client_Options DNSProvider" where
  "example_provider = \<lparr>config = example_config, client = Options example_options\<rparr>"

text \<open>
  Three environments: one with nothing set; one with both access variables, a TTL and a
  propagation timeout; one where the token and the TTL come from files.
\<close>

definition empty_env :: os_env where
  "empty_env = \<lparr>vars = Map.empty, files = Map.empty\<rparr>"

definition example_env :: os_env where
  "example_env =
     \<lparr>vars = [''SAKURACLOUD_ACCESS_TOKEN'' \<mapsto> ''tok'',
              ''SAKURACLOUD_ACCESS_TOKEN_SECRET'' \<mapsto> ''sec'',
              ''SAKURACLOUD_TTL'' \<mapsto> ''300'',
              ''SAKURACLOUD_PROPAGATION_TIMEOUT'' \<mapsto> ''120''],
      files = Map.empty\<rparr>"

definition example_env_file :: os_env where
  "example_env_file =
     \<lparr>vars = [''SAKURACLOUD_ACCESS_TOKEN_FILE'' \<mapsto> ''/run/secrets/token'',
              ''SAKURACLOUD_ACCESS_TOKEN_SECRET'' \<mapsto> ''sec'',
              ''SAKURACLOUD_TTL_FILE'' \<mapsto> ''/run/secrets/ttl''],
      files = [''/run/secrets/token'' \<mapsto> ''tok'' @ [CHR 0x0A],
               ''/run/secrets/ttl'' \<mapsto> ''300'' @ [CHR 0x0A]]\<rparr>"

text \<open>
  Two states of the world: one with an empty zone and no CNAME, and the one in which the
  name of the challenge for \<^verbatim>\<open>example.com\<close> has become an alias.
\<close>

definition example_world :: "dns_state world" where
  "example_world =
     \<lparr>environ = example_env, remote = \<lparr>cnames = [], txt_records = [], requests = []\<rparr>, calls = []\<rparr>"

definition delegate :: "dns_state world \<Rightarrow> dns_state world" where
  "delegate w =
     w\<lparr>remote := (remote w)\<lparr>cnames :=
           [(''_acme-challenge.example.com.'', ''_acme-challenge.delegated.test.'')]\<rparr>\<rparr>"

section \<open>Strings\<close>

lemma HasSuffix_slash: "HasSuffix s ''/'' = (s \<noteq> [] \<and> last s = CHR ''/'')"
proof (cases s rule: rev_cases)
  case Nil
  then show ?thesis by (simp add: HasSuffix_def)
next
  case (snoc ys y)
  then show ?thesis by (simp add: HasSuffix_def)
qed

lemma TrimRight_no_slash_suffix: "\<not> HasSuffix (TrimRight s ''/'') ''/''"
proof -
  let ?r = "dropWhile (\<lambda>c. c \<in> set ''/'') (rev s)"
  have "?r = [] \<or> hd ?r \<noteq> CHR ''/''"
    using hd_dropWhile [of "\<lambda>c. c \<in> set ''/''" "rev s"] by auto
  then show ?thesis
    by (auto simp: HasSuffix_slash TrimRight_def last_rev)
qed

lemma TrimRight_decompose:
  "\<exists>n. s = TrimRight s ''/'' @ replicate n CHR ''/''"
proof -
  let ?P = "\<lambda>c. c \<in> set ''/''"
  let ?n = "length (takeWhile ?P (rev s))"
  have t: "takeWhile ?P (rev s) = replicate ?n CHR ''/''"
    by (rule replicate_length_same [symmetric]) (auto dest: set_takeWhileD)
  have "rev s = takeWhile ?P (rev s) @ dropWhile ?P (rev s)" by simp
  then have "rev (rev s) = rev (takeWhile ?P (rev s) @ dropWhile ?P (rev s))" by simp
  then have "s = rev (dropWhile ?P (rev s)) @ rev (takeWhile ?P (rev s))"
    by (simp only: rev_append rev_rev_ident)
  also have "rev (takeWhile ?P (rev s)) = replicate ?n CHR ''/''"
    using t by (metis rev_replicate)
  finally have "s = TrimRight s ''/'' @ replicate ?n CHR ''/''"
    by (simp add: TrimRight_def)
  then show ?thesis ..
qed

lemma TrimRight_unchanged: "\<not> HasSuffix s ''/'' \<Longrightarrow> TrimRight s ''/'' = s"
proof (cases s rule: rev_cases)
  case Nil
  then show ?thesis by (simp add: TrimRight_def)
next
  case (snoc ys y)
  assume "\<not> HasSuffix s ''/''"
  with snoc show ?thesis by (simp add: HasSuffix_slash TrimRight_def)
qed

lemma TrimRight_Nil: "TrimRight [] cutset = []"
  by (simp add: TrimRight_def)

section \<open>Present, CleanUp and Timeout\<close>

lemma fst_call_addTXTRecord:
  "fst (call_addTXTRecord W d fqdn v ttl w) = fst (addTXTRecord W d fqdn v ttl (remote w))"
  by (simp add: call_addTXTRecord_def split: prod.splits)

lemma snd_call_addTXTRecord:
  "snd (call_addTXTRecord W d fqdn v ttl w) =
     w\<lparr>remote := snd (addTXTRecord W d fqdn v ttl (remote w)), calls := calls w @ [AddTXT fqdn v ttl]\<rparr>"
  by (simp add: call_addTXTRecord_def split: prod.splits)

lemma fst_call_cleanupTXTRecord:
  "fst (call_cleanupTXTRecord W d fqdn v w) = fst (cleanupTXTRecord W d fqdn v (remote w))"
  by (simp add: call_cleanupTXTRecord_def split: prod.splits)

lemma snd_call_cleanupTXTRecord:
  "snd (call_cleanupTXTRecord W d fqdn v w) =
     w\<lparr>remote := snd (cleanupTXTRecord W d fqdn v (remote w)), calls := calls w @ [CleanupTXT fqdn v]\<rparr>"
  by (simp add: call_cleanupTXTRecord_def split: prod.splits)

lemma Present_unfold:
  "Present L W d domain token keyAuth w =
     (case fst (call_addTXTRecord W d (EffectiveFQDN (GetChallengeInfo L (environ w) (remote w) domain keyAuth))
                  (Value (GetChallengeInfo L (environ w) (remote w) domain keyAuth)) (TTL (config d)) w) of
        None \<Rightarrow> None
      | Some e \<Rightarrow> Some (Errorf_w ''sakuracloud: '' e),
      snd (call_addTXTRecord W d (EffectiveFQDN (GetChallengeInfo L (environ w) (remote w) domain keyAuth))
             (Value (GetChallengeInfo L (environ w) (remote w) domain keyAuth)) (TTL (config d)) w))"
  by (simp add: Present_def Let_def split: prod.splits option.splits)

lemma CleanUp_unfold:
  "CleanUp L W d domain token keyAuth w =
     (case fst (call_cleanupTXTRecord W d (EffectiveFQDN (GetChallengeInfo L (environ w) (remote w) domain keyAuth))
                  (Value (GetChallengeInfo L (environ w) (remote w) domain keyAuth)) w) of
        None \<Rightarrow> None
      | Some e \<Rightarrow> Some (Errorf_w ''sakuracloud: '' e),
      snd (call_cleanupTXTRecord W d (EffectiveFQDN (GetChallengeInfo L (environ w) (remote w) domain keyAuth))
             (Value (GetChallengeInfo L (environ w) (remote w) domain keyAuth)) w))"
  by (simp add: CleanUp_def Let_def split: prod.splits option.splits)

lemma fst_Present:
  "fst (Present L W d domain token keyAuth w) =
     (case fst (addTXTRecord W d (EffectiveFQDN (GetChallengeInfo L (environ w) (remote w) domain keyAuth))
                  (Value (GetChallengeInfo L (environ w) (remote w) domain keyAuth)) (TTL (config d)) (remote w)) of
        None \<Rightarrow> None
      | Some e \<Rightarrow> Some (Errorf_w ''sakuracloud: '' e))"
  by (simp only: Present_unfold fst_conv fst_call_addTXTRecord)

lemma snd_Present:
  "snd (Present L W d domain token keyAuth w) =
     w\<lparr>remote := snd (addTXTRecord W d (EffectiveFQDN (GetChallengeInfo L (environ w) (remote w) domain keyAuth))
                      (Value (GetChallengeInfo L (environ w) (remote w) domain keyAuth)) (TTL (config d)) (remote w)),
       calls := calls w @ [AddTXT (EffectiveFQDN (GetChallengeInfo L (environ w) (remote w) domain keyAuth))
                           (Value (GetChallengeInfo L (environ w) (remote w) domain keyAuth)) (TTL (config d))]\<rparr>"
  by (simp only: Present_unfold snd_conv snd_call_addTXTRecord)

lemma fst_CleanUp:
  "fst (CleanUp L W d domain token keyAuth w) =
     (case fst (cleanupTXTRecord W d (EffectiveFQDN (GetChallengeInfo L (environ w) (remote w) domain keyAuth))
                  (Value (GetChallengeInfo L (environ w) (remote w) domain keyAuth)) (remote w)) of
        None \<Rightarrow> None
      | Some e \<Rightarrow> Some (Errorf_w ''sakuracloud: '' e))"
  by (simp only: CleanUp_unfold fst_conv fst_call_cleanupTXTRecord)

lemma snd_CleanUp:
  "snd (CleanUp L W d domain token keyAuth w) =
     w\<lparr>remote := snd (cleanupTXTRecord W d (EffectiveFQDN (GetChallengeInfo L (environ w) (remote w) domain keyAuth))
                      (Value (GetChallengeInfo L (environ w) (remote w) domain keyAuth)) (remote w)),
       calls := calls w @ [CleanupTXT (EffectiveFQDN (GetChallengeInfo L (environ w) (remote w) domain keyAuth))
                           (Value (GetChallengeInfo L (environ w) (remote w) domain keyAuth))]\<rparr>"
  by (simp only: CleanUp_unfold snd_conv snd_call_cleanupTXTRecord)

text \<open>
  C1. \<^verbatim>\<open>Present\<close> and \<^verbatim>\<open>CleanUp\<close> each take the challenge information of the domain and
  the key authorisation as \<^verbatim>\<open>GetChallengeInfo\<close> gives it at the moment of the call, and
  hand its effective name and its value to the create call and to the delete call: the
  helper is applied to exactly these, once, and what it returns and leaves is what the
  method returns and leaves. So when the information is the same at both calls, the record
  \<^verbatim>\<open>CleanUp\<close> asks to delete has the name and the value of the record \<^verbatim>\<open>Present\<close> asked to
  create, whatever the provider, the token and the rest of the state.
\<close>

theorem CleanUp_targets_the_record_Present_created_when_resolved_alike:
  fixes W :: "('cl, 'r) wrapper" and W' :: "('cl, 'r) wrapper"
  assumes "i = GetChallengeInfo L (environ w) (remote w) domain keyAuth"
    and "i' = GetChallengeInfo L (environ w') (remote w') domain keyAuth"
  shows
  "Present L W d domain token keyAuth w =
     (case fst (addTXTRecord W d (EffectiveFQDN i) (Value i) (TTL (config d)) (remote w)) of
        None \<Rightarrow> None
      | Some e \<Rightarrow> Some (Errorf_w ''sakuracloud: '' e),
      w\<lparr>remote := snd (addTXTRecord W d (EffectiveFQDN i) (Value i) (TTL (config d)) (remote w)),
        calls := calls w @ [AddTXT (EffectiveFQDN i) (Value i) (TTL (config d))]\<rparr>)
   \<and> CleanUp L W' d' domain token' keyAuth w' =
     (case fst (cleanupTXTRecord W' d' (EffectiveFQDN i') (Value i') (remote w')) of
        None \<Rightarrow> None
      | Some e \<Rightarrow> Some (Errorf_w ''sakuracloud: '' e),
      w'\<lparr>remote := snd (cleanupTXTRecord W' d' (EffectiveFQDN i') (Value i') (remote w')),
         calls := calls w' @ [CleanupTXT (EffectiveFQDN i') (Value i')]\<rparr>)
   \<and> (i' = i \<longrightarrow>
        record_name (last (calls (snd (CleanUp L W' d' domain token' keyAuth w')))) =
          record_name (last (calls (snd (Present L W d domain token keyAuth w))))
        \<and> record_value (last (calls (snd (CleanUp L W' d' domain token' keyAuth w')))) =
          record_value (last (calls (snd (Present L W d domain token keyAuth w)))))"
proof -
  have p: "Present L W d domain token keyAuth w =
     (case fst (addTXTRecord W d (EffectiveFQDN i) (Value i) (TTL (config d)) (remote w)) of
        None \<Rightarrow> None
      | Some e \<Rightarrow> Some (Errorf_w ''sakuracloud: '' e),
      w\<lparr>remote := snd (addTXTRecord W d (EffectiveFQDN i) (Value i) (TTL (config d)) (remote w)),
        calls := calls w @ [AddTXT (EffectiveFQDN i) (Value i) (TTL (config d))]\<rparr>)"
    unfolding assms(1)
    by (simp only: Present_unfold fst_call_addTXTRecord snd_call_addTXTRecord)
  have c: "CleanUp L W' d' domain token' keyAuth w' =
     (case fst (cleanupTXTRecord W' d' (EffectiveFQDN i') (Value i') (remote w')) of
        None \<Rightarrow> None
      | Some e \<Rightarrow> Some (Errorf_w ''sakuracloud: '' e),
      w'\<lparr>remote := snd (cleanupTXTRecord W' d' (EffectiveFQDN i') (Value i') (remote w')),
         calls := calls w' @ [CleanupTXT (EffectiveFQDN i') (Value i')]\<rparr>)"
    unfolding assms(2)
    by (simp only: CleanUp_unfold fst_call_cleanupTXTRecord snd_call_cleanupTXTRecord)
  have "record_name (last (calls (snd (CleanUp L W' d' domain token' keyAuth w')))) =
          EffectiveFQDN i'"
    and "record_value (last (calls (snd (CleanUp L W' d' domain token' keyAuth w')))) = Value i'"
    and "record_name (last (calls (snd (Present L W d domain token keyAuth w)))) =
          EffectiveFQDN i"
    and "record_value (last (calls (snd (Present L W d domain token keyAuth w)))) = Value i"
    by (simp_all add: p c)
  then show ?thesis using p c by simp
qed

theorem CleanUp_targets_the_record_Present_created_when_resolved_alike_witness:
  "GetChallengeInfo example_lego
       (environ (snd (Present example_lego example_wrapper example_provider
                        ''example.com'' ''token'' ''keyAuth'' example_world)))
       (remote (snd (Present example_lego example_wrapper example_provider
                       ''example.com'' ''token'' ''keyAuth'' example_world)))
       ''example.com'' ''keyAuth'' =
     GetChallengeInfo example_lego (environ example_world) (remote example_world)
       ''example.com'' ''keyAuth''
   \<and> record_name (last (calls (snd (CleanUp example_lego example_wrapper example_provider
         ''example.com'' ''token'' ''keyAuth''
         (snd (Present example_lego example_wrapper example_provider
                 ''example.com'' ''token'' ''keyAuth'' example_world)))))) =
       record_name (last (calls (snd (Present example_lego example_wrapper example_provider
         ''example.com'' ''token'' ''keyAuth'' example_world))))
   \<and> record_value (last (calls (snd (CleanUp example_lego example_wrapper example_provider
         ''example.com'' ''token'' ''keyAuth''
         (snd (Present example_lego example_wrapper example_provider
                 ''example.com'' ''token'' ''keyAuth'' example_world)))))) =
       record_value (last (calls (snd (Present example_lego example_wrapper example_provider
         ''example.com'' ''token'' ''keyAuth'' example_world))))
   \<and> txt_records (remote (snd (Present example_lego example_wrapper example_provider
         ''example.com'' ''token'' ''keyAuth'' example_world))) =
       [(''_acme-challenge.example.com.'', ''keyAuth'')]
   \<and> txt_records (remote (snd (CleanUp example_lego example_wrapper example_provider
         ''example.com'' ''token'' ''keyAuth''
         (snd (Present example_lego example_wrapper example_provider
                 ''example.com'' ''token'' ''keyAuth'' example_world))))) = []"
proof -
  let ?w1 = "snd (Present example_lego example_wrapper example_provider
                    ''example.com'' ''token'' ''keyAuth'' example_world)"
  have same: "GetChallengeInfo example_lego (environ ?w1) (remote ?w1) ''example.com'' ''keyAuth'' =
      GetChallengeInfo example_lego (environ example_world) (remote example_world)
        ''example.com'' ''keyAuth''"
    by (simp add: snd_Present example_lego_def example_wrapper_def example_world_def)
  have t1: "txt_records (remote ?w1) = [(''_acme-challenge.example.com.'', ''keyAuth'')]"
    by (simp add: snd_Present example_lego_def example_wrapper_def example_world_def)
  have t2: "txt_records (remote (snd (CleanUp example_lego example_wrapper example_provider
         ''example.com'' ''token'' ''keyAuth'' ?w1))) = []"
    by (simp add: snd_CleanUp snd_Present example_lego_def example_wrapper_def example_world_def)
  show ?thesis
    using CleanUp_targets_the_record_Present_created_when_resolved_alike
            [where L = example_lego and W = example_wrapper and W' = example_wrapper
               and d = example_provider and d' = example_provider
               and domain = "''example.com''" and token = "''token''" and token' = "''token''"
               and keyAuth = "''keyAuth''" and w = example_world and w' = ?w1, OF refl refl]
          same t1 t2
    by blast
qed

theorem CleanUp_misses_the_record_after_delegation:
  "record_name (last (calls (snd (Present example_lego example_wrapper example_provider
       ''example.com'' ''token'' ''keyAuth'' example_world)))) = ''_acme-challenge.example.com.''
   \<and> record_name (last (calls (snd (CleanUp example_lego example_wrapper example_provider
       ''example.com'' ''token'' ''keyAuth''
       (delegate (snd (Present example_lego example_wrapper example_provider
                         ''example.com'' ''token'' ''keyAuth'' example_world))))))) =
       ''_acme-challenge.delegated.test.''
   \<and> txt_records (remote (snd (CleanUp example_lego example_wrapper example_provider
       ''example.com'' ''token'' ''keyAuth''
       (delegate (snd (Present example_lego example_wrapper example_provider
                         ''example.com'' ''token'' ''keyAuth'' example_world)))))) =
       [(''_acme-challenge.example.com.'', ''keyAuth'')]"
  by (simp add: snd_CleanUp snd_Present delegate_def example_lego_def example_wrapper_def
      example_world_def)

text \<open>
  C3. \<^verbatim>\<open>Present\<close> returns nil exactly when \<^verbatim>\<open>addTXTRecord\<close> returns nil, and when
  \<^verbatim>\<open>addTXTRecord\<close> returns an error \<open>e\<close> it returns \<open>e\<close> wrapped behind the prefix
  \<^verbatim>\<open>"sakuracloud: "\<close>: unwrapping gives \<open>e\<close> back and the text is the prefix followed by the
  text of \<open>e\<close>. The same holds of \<^verbatim>\<open>CleanUp\<close> and \<^verbatim>\<open>cleanupTXTRecord\<close>.
\<close>

theorem Present_and_CleanUp_propagate_errors:
  "fst (Present L W d domain token keyAuth w) =
     (case fst (addTXTRecord W d (EffectiveFQDN (GetChallengeInfo L (environ w) (remote w) domain keyAuth))
                  (Value (GetChallengeInfo L (environ w) (remote w) domain keyAuth)) (TTL (config d)) (remote w)) of
        None \<Rightarrow> None
      | Some e \<Rightarrow> Some (Errorf_w ''sakuracloud: '' e))
   \<and> (fst (Present L W d domain token keyAuth w) = None) =
       (fst (addTXTRecord W d (EffectiveFQDN (GetChallengeInfo L (environ w) (remote w) domain keyAuth))
                  (Value (GetChallengeInfo L (environ w) (remote w) domain keyAuth)) (TTL (config d)) (remote w)) = None)
   \<and> fst (CleanUp L W d domain token keyAuth w) =
     (case fst (cleanupTXTRecord W d (EffectiveFQDN (GetChallengeInfo L (environ w) (remote w) domain keyAuth))
                  (Value (GetChallengeInfo L (environ w) (remote w) domain keyAuth)) (remote w)) of
        None \<Rightarrow> None
      | Some e \<Rightarrow> Some (Errorf_w ''sakuracloud: '' e))
   \<and> (fst (CleanUp L W d domain token keyAuth w) = None) =
       (fst (cleanupTXTRecord W d (EffectiveFQDN (GetChallengeInfo L (environ w) (remote w) domain keyAuth))
                  (Value (GetChallengeInfo L (environ w) (remote w) domain keyAuth)) (remote w)) = None)
   \<and> Unwrap (Errorf_w ''sakuracloud: '' e) = Some e
   \<and> Error (Errorf_w ''sakuracloud: '' e) = ''sakuracloud: '' @ Error e"
  by (simp add: fst_Present fst_CleanUp split: option.splits)



text \<open>
  C9. The token is ignored: with the same domain and key authorisation, \<^verbatim>\<open>Present\<close> under
  two tokens returns the same error or nil and leaves the same state, log of calls
  included, and so does \<^verbatim>\<open>CleanUp\<close>.
\<close>

theorem token_is_ignored:
  "Present L W d domain t1 keyAuth w = Present L W d domain t2 keyAuth w
   \<and> CleanUp L W d domain t1 keyAuth w = CleanUp L W d domain t2 keyAuth w"
  by (simp add: Present_def CleanUp_def)

text \<open>
  C5. For every provider, \<^verbatim>\<open>Timeout\<close> returns the propagation timeout and the polling
  interval of its configuration, in that order, and leaves the state as it was.
\<close>

theorem Timeout_returns_the_configured_pair:
  "fst (Timeout d s) = (PropagationTimeout (config d), PollingInterval (config d))
   \<and> snd (Timeout d s) = s"
  by (simp add: Timeout_def)

section \<open>The readers of the environment and the default configuration\<close>





lemma GetOrFile_set: "vars env name = Some v \<Longrightarrow> v \<noteq> [] \<Longrightarrow> GetOrFile env name = v"
  by (simp add: GetOrFile_def Getenv_def index_def)

lemma GetOrFile_unset:
  "Getenv env name = [] \<Longrightarrow> Getenv env (name @ ''_FILE'') = [] \<Longrightarrow> GetOrFile env name = []"
  by (simp add: GetOrFile_def)





lemma env_Get_missing:
  "GetOrFile env a = [] \<or> GetOrFile env b = [] \<Longrightarrow>
   env_Get env [a, b] =
     Inl (ErrorsNew (''some credentials information are missing: ''
                       @ Join (filter (\<lambda>n. GetOrFile env n = []) [a, b]) '',''))"
  by (auto simp add: env_Get_def Let_def)

lemma env_Get_both:
  "GetOrFile env a \<noteq> [] \<Longrightarrow> GetOrFile env b \<noteq> [] \<Longrightarrow>
   env_Get env [a, b] = Inr (map_of [(a, GetOrFile env a), (b, GetOrFile env b)])"
  by (simp add: env_Get_def Let_def)

lemma NewDNSProvider_missing:
  "GetOrFile env EnvAccessToken = [] \<or> GetOrFile env EnvAccessTokenSecret = [] \<Longrightarrow>
   NewDNSProvider L S env g =
     (Inl (Errorf_w ''sakuracloud: ''
             (ErrorsNew (''some credentials information are missing: ''
                           @ Join (filter (\<lambda>n. GetOrFile env n = [])
                                     [EnvAccessToken, EnvAccessTokenSecret]) '',''))), g)"
  by (simp only: NewDNSProvider_def env_Get_missing sum.case)

lemma NewDNSProvider_resolved:
  "GetOrFile env EnvAccessToken \<noteq> [] \<Longrightarrow> GetOrFile env EnvAccessTokenSecret \<noteq> [] \<Longrightarrow>
   NewDNSProvider L S env g =
     NewDNSProviderConfig L S
       (Some ((NewDefaultConfig L env)\<lparr>Token := GetOrFile env EnvAccessToken,
                                        Secret := GetOrFile env EnvAccessTokenSecret\<rparr>)) g"
  by (simp add: NewDNSProvider_def env_Get_both index_def Let_def
      EnvAccessToken_def EnvAccessTokenSecret_def envNamespace_def)




section \<open>The constructors\<close>

lemma newCaller_globals:
  "snd (snd (newCaller S opts g)) =
     g\<lparr>DefaultStatePollingTimeout := 72 * Hour,
       APIDefaultZone := (if DefaultZone opts = '''' then APIDefaultZone g else DefaultZone opts),
       SakuraCloudZones := (if Zones opts = [] then SakuraCloudZones g else Zones opts),
       SakuraCloudAPIRoot :=
         (if APIRootURL opts = '''' then SakuraCloudAPIRoot g else TrimRight (APIRootURL opts) ''/'')\<rparr>"
  by (cases "HasSuffix (APIRootURL opts) ''/''")
     (simp_all add: newCaller_def Let_def TrimRight_unchanged)

lemma newCaller_options:
  "fst (snd (newCaller S opts g)) =
     opts\<lparr>Options := (Options opts)\<lparr>UserAgent :=
              (if UserAgent (Options opts) = '''' then DefaultUserAgent S else UserAgent (Options opts))\<rparr>,
          APIRootURL := TrimRight (APIRootURL opts) ''/''\<rparr>"
  by (cases "HasSuffix (APIRootURL opts) ''/''")
     (auto simp add: newCaller_def Let_def TrimRight_unchanged TrimRight_Nil)

lemma Hour_72: "72 * Hour = (259200000000000 :: duration)"
  by (simp add: Hour_def Minute_def Second_def)

text \<open>
  C8. After \<^verbatim>\<open>newCaller\<close>: \<^verbatim>\<open>iaas.APIDefaultZone\<close> is the default zone of the options when
  that is not empty and is unchanged otherwise; \<^verbatim>\<open>iaas.SakuraCloudZones\<close> is the zones of
  the options when there are some and is unchanged otherwise; an empty user agent of the
  options has become \<^verbatim>\<open>iaas.DefaultUserAgent\<close> and any other is kept; and
  \<^verbatim>\<open>iaas.SakuraCloudAPIRoot\<close> is, when the root URL of the options is not empty, that URL
  without its trailing slashes (what is removed is slashes only, and what is left does
  not end in a slash), and is unchanged otherwise.
\<close>

theorem newCaller_applies_overrides_conditionally:
  "APIDefaultZone (snd (snd (newCaller S opts g))) =
     (if DefaultZone opts = '''' then APIDefaultZone g else DefaultZone opts)
   \<and> SakuraCloudZones (snd (snd (newCaller S opts g))) =
     (if Zones opts = [] then SakuraCloudZones g else Zones opts)
   \<and> UserAgent (Options (fst (snd (newCaller S opts g)))) =
     (if UserAgent (Options opts) = '''' then DefaultUserAgent S else UserAgent (Options opts))
   \<and> SakuraCloudAPIRoot (snd (snd (newCaller S opts g))) =
     (if APIRootURL opts = '''' then SakuraCloudAPIRoot g else TrimRight (APIRootURL opts) ''/'')
   \<and> \<not> HasSuffix (TrimRight (APIRootURL opts) ''/'') ''/''
   \<and> (\<exists>n. APIRootURL opts = TrimRight (APIRootURL opts) ''/'' @ replicate n CHR ''/'')"
  using TrimRight_no_slash_suffix [of "APIRootURL opts"] TrimRight_decompose [of "APIRootURL opts"]
  by (simp add: newCaller_globals newCaller_options)

lemma NewDNSProviderConfig_nil:
  "NewDNSProviderConfig L S None g =
     (Inl (ErrorsNew ''sakuracloud: the configuration of the DNS provider is nil''), g)"
  by (simp add: NewDNSProviderConfig_def)

lemma NewDNSProviderConfig_no_token:
  "Token c = '''' \<Longrightarrow>
   NewDNSProviderConfig L S (Some c) g = (Inl (ErrorsNew ''sakuracloud: AccessToken is missing''), g)"
  by (simp add: NewDNSProviderConfig_def)

lemma NewDNSProviderConfig_no_secret:
  "Token c \<noteq> '''' \<Longrightarrow> Secret c = '''' \<Longrightarrow>
   NewDNSProviderConfig L S (Some c) g = (Inl (ErrorsNew ''sakuracloud: AccessSecret is missing''), g)"
  by (simp add: NewDNSProviderConfig_def)

lemma NewDNSProviderConfig_built:
  "Token c \<noteq> '''' \<Longrightarrow> Secret c \<noteq> '''' \<Longrightarrow> DefaultOption S = Inr dopt \<Longrightarrow>
   NewDNSProviderConfig L S (Some c) g =
     (Inr \<lparr>config = c,
           client = NewDNSOp S (fst (newCaller S (MergeOptions S [dopt, provider_options L S c]) g))\<rparr>,
      snd (snd (newCaller S (MergeOptions S [dopt, provider_options L S c]) g)))"
  by (simp add: NewDNSProviderConfig_def newCallerWithOptions_def provider_options_def Let_def
      split: prod.splits)

text \<open>
  C2. \<^verbatim>\<open>NewDNSProviderConfig\<close> returns an error and no provider when the configuration is
  nil, when its token is empty or when its secret is empty (and leaves the globals as they
  were). Otherwise, when \<^verbatim>\<open>api.DefaultOption\<close> succeeds, it returns a provider, with no error,
  whose configuration is the one it was given.
\<close>

theorem NewDNSProviderConfig_validates_credentials:
  "((cfg = None \<or> (\<exists>c. cfg = Some c \<and> (Token c = '''' \<or> Secret c = ''''))) \<longrightarrow>
      (\<exists>e. NewDNSProviderConfig L S cfg g = (Inl e, g)))
   \<and> (cfg = Some c \<and> Token c \<noteq> '''' \<and> Secret c \<noteq> '''' \<and> DefaultOption S = Inr dopt \<longrightarrow>
      (\<exists>d. fst (NewDNSProviderConfig L S cfg g) = Inr d \<and> config d = c))"
proof (intro conjI impI)
  assume "cfg = None \<or> (\<exists>c. cfg = Some c \<and> (Token c = '''' \<or> Secret c = ''''))"
  then consider "cfg = None" | c' where "cfg = Some c'" "Token c' = ''''"
    | c' where "cfg = Some c'" "Token c' \<noteq> ''''" "Secret c' = ''''"
    by blast
  then show "\<exists>e. NewDNSProviderConfig L S cfg g = (Inl e, g)"
  proof cases
    case 1
    then show ?thesis by (simp add: NewDNSProviderConfig_nil)
  next
    case 2
    then show ?thesis by (simp add: NewDNSProviderConfig_no_token)
  next
    case 3
    then show ?thesis by (simp add: NewDNSProviderConfig_no_secret)
  qed
next
  assume "cfg = Some c \<and> Token c \<noteq> '''' \<and> Secret c \<noteq> '''' \<and> DefaultOption S = Inr dopt"
  then show "\<exists>d. fst (NewDNSProviderConfig L S cfg g) = Inr d \<and> config d = c"
    by (simp add: NewDNSProviderConfig_built)
qed

theorem NewDNSProviderConfig_validates_credentials_witness:
  "(\<exists>e. NewDNSProviderConfig example_lego example_sacloud None example_globals =
          (Inl e, example_globals))
   \<and> Token (example_config\<lparr>Token := ''''\<rparr>) = ''''
   \<and> (\<exists>e. NewDNSProviderConfig example_lego example_sacloud
            (Some (example_config\<lparr>Token := ''''\<rparr>)) example_globals = (Inl e, example_globals))
   \<and> Secret (example_config\<lparr>Secret := ''''\<rparr>) = ''''
   \<and> (\<exists>e. NewDNSProviderConfig example_lego example_sacloud
            (Some (example_config\<lparr>Secret := ''''\<rparr>)) example_globals = (Inl e, example_globals))
   \<and> Token example_config \<noteq> '''' \<and> Secret example_config \<noteq> ''''
   \<and> DefaultOption example_sacloud = Inr example_options
   \<and> (\<exists>d. fst (NewDNSProviderConfig example_lego example_sacloud (Some example_config)
                  example_globals) = Inr d \<and> config d = example_config)"
  using NewDNSProviderConfig_validates_credentials
          [of None example_lego example_sacloud example_globals]
        NewDNSProviderConfig_validates_credentials
          [of "Some (example_config\<lparr>Token := ''''\<rparr>)" example_lego example_sacloud example_globals]
        NewDNSProviderConfig_validates_credentials
          [of "Some (example_config\<lparr>Secret := ''''\<rparr>)" example_lego example_sacloud example_globals]
        NewDNSProviderConfig_validates_credentials
          [of "Some example_config" example_lego example_sacloud example_globals
              example_config example_options]
  by (simp add: example_config_def example_sacloud_def)

text \<open>
  C10. A call of \<^verbatim>\<open>NewDNSProviderConfig\<close> that gets as far as building the caller (the
  configuration is not nil, token and secret are not empty, \<^verbatim>\<open>api.DefaultOption\<close> succeeds)
  leaves \<^verbatim>\<open>defaults.DefaultStatePollingTimeout\<close> at 72 hours, whatever it was, and
  overwrites \<^verbatim>\<open>iaas.APIDefaultZone\<close>, \<^verbatim>\<open>iaas.SakuraCloudZones\<close> and
  \<^verbatim>\<open>iaas.SakuraCloudAPIRoot\<close> whenever the merged options carry a default zone, zones or a
  root URL.
\<close>

theorem NewDNSProviderConfig_assigns_globals:
  "cfg = Some c \<Longrightarrow> Token c \<noteq> '''' \<Longrightarrow> Secret c \<noteq> '''' \<Longrightarrow> DefaultOption S = Inr dopt \<Longrightarrow>
   opts = MergeOptions S [dopt, provider_options L S c] \<Longrightarrow>
   snd (NewDNSProviderConfig L S cfg g) =
     g\<lparr>DefaultStatePollingTimeout := 259200000000000,
       APIDefaultZone := (if DefaultZone opts = '''' then APIDefaultZone g else DefaultZone opts),
       SakuraCloudZones := (if Zones opts = [] then SakuraCloudZones g else Zones opts),
       SakuraCloudAPIRoot :=
         (if APIRootURL opts = '''' then SakuraCloudAPIRoot g else TrimRight (APIRootURL opts) ''/'')\<rparr>
   \<and> DefaultStatePollingTimeout (snd (NewDNSProviderConfig L S cfg g)) = 72 * Hour"
  by (simp add: NewDNSProviderConfig_built newCaller_globals Hour_72)

theorem NewDNSProviderConfig_assigns_globals_witness:
  "Token example_config \<noteq> '''' \<and> Secret example_config \<noteq> ''''
   \<and> DefaultOption example_sacloud = Inr example_options
   \<and> snd (NewDNSProviderConfig example_lego example_sacloud (Some example_config) example_globals) =
       \<lparr>DefaultStatePollingTimeout = 259200000000000,
        APIDefaultZone = ''is1a'',
        SakuraCloudZones = [''is1a'', ''tk1a''],
        SakuraCloudAPIRoot = ''https://dns.test/api''\<rparr>
   \<and> example_globals =
       \<lparr>DefaultStatePollingTimeout = 1200000000000,
        APIDefaultZone = ''tk1a'',
        SakuraCloudZones = [''tk1a''],
        SakuraCloudAPIRoot = ''https://secure.sakura.ad.jp/cloud/zone''\<rparr>"
  using NewDNSProviderConfig_assigns_globals
          [of "Some example_config" example_config example_sacloud example_options
              "MergeOptions example_sacloud
                 [example_options, provider_options example_lego example_sacloud example_config]"
              example_lego example_globals]
  by (simp add: example_config_def example_sacloud_def example_options_def example_globals_def
      provider_options_def TrimRight_def Minute_def Second_def)

text \<open>
  C4. \<^verbatim>\<open>NewDNSProvider\<close> returns an error, wrapped behind the package prefix, when for
  \<^verbatim>\<open>SAKURACLOUD_ACCESS_TOKEN\<close> or for \<^verbatim>\<open>SAKURACLOUD_ACCESS_TOKEN_SECRET\<close> nothing is found:
  the variable is unset or empty and so is its \<^verbatim>\<open>_FILE\<close> companion (or, more generally,
  the name resolves to nothing). When both variables are set and not empty, its result is
  that of \<^verbatim>\<open>NewDNSProviderConfig\<close> on the default configuration with the token and the secret
  replaced by the values of the two variables.
\<close>

theorem NewDNSProvider_takes_credentials_from_environment:
  "((Getenv env ''SAKURACLOUD_ACCESS_TOKEN'' = ''''
       \<and> Getenv env ''SAKURACLOUD_ACCESS_TOKEN_FILE'' = '''')
      \<or> (Getenv env ''SAKURACLOUD_ACCESS_TOKEN_SECRET'' = ''''
       \<and> Getenv env ''SAKURACLOUD_ACCESS_TOKEN_SECRET_FILE'' = '''') \<longrightarrow>
      (\<exists>e. NewDNSProvider L S env g = (Inl (Errorf_w ''sakuracloud: '' e), g)))
   \<and> (GetOrFile env ''SAKURACLOUD_ACCESS_TOKEN'' = ''''
      \<or> GetOrFile env ''SAKURACLOUD_ACCESS_TOKEN_SECRET'' = '''' \<longrightarrow>
      (\<exists>e. NewDNSProvider L S env g = (Inl (Errorf_w ''sakuracloud: '' e), g)))
   \<and> (vars env ''SAKURACLOUD_ACCESS_TOKEN'' = Some t \<and> t \<noteq> ''''
      \<and> vars env ''SAKURACLOUD_ACCESS_TOKEN_SECRET'' = Some s \<and> s \<noteq> '''' \<longrightarrow>
      NewDNSProvider L S env g =
        NewDNSProviderConfig L S (Some ((NewDefaultConfig L env)\<lparr>Token := t, Secret := s\<rparr>)) g)"
proof -
  have names: "EnvAccessToken = ''SAKURACLOUD_ACCESS_TOKEN''"
    "EnvAccessTokenSecret = ''SAKURACLOUD_ACCESS_TOKEN_SECRET''"
    by (simp_all add: EnvAccessToken_def EnvAccessTokenSecret_def envNamespace_def)
  have general: "\<exists>e. NewDNSProvider L S env g = (Inl (Errorf_w ''sakuracloud: '' e), g)"
    if "GetOrFile env ''SAKURACLOUD_ACCESS_TOKEN'' = ''''
        \<or> GetOrFile env ''SAKURACLOUD_ACCESS_TOKEN_SECRET'' = ''''"
  proof -
    from that have "GetOrFile env EnvAccessToken = [] \<or> GetOrFile env EnvAccessTokenSecret = []"
      by (simp only: names)
    then show ?thesis by (simp only: NewDNSProvider_missing) blast
  qed
  have unset: "\<exists>e. NewDNSProvider L S env g = (Inl (Errorf_w ''sakuracloud: '' e), g)"
    if "(Getenv env ''SAKURACLOUD_ACCESS_TOKEN'' = ''''
           \<and> Getenv env ''SAKURACLOUD_ACCESS_TOKEN_FILE'' = '''')
        \<or> (Getenv env ''SAKURACLOUD_ACCESS_TOKEN_SECRET'' = ''''
           \<and> Getenv env ''SAKURACLOUD_ACCESS_TOKEN_SECRET_FILE'' = '''')"
  proof -
    from that have "GetOrFile env ''SAKURACLOUD_ACCESS_TOKEN'' = ''''
        \<or> GetOrFile env ''SAKURACLOUD_ACCESS_TOKEN_SECRET'' = ''''"
      using GetOrFile_unset [of env "''SAKURACLOUD_ACCESS_TOKEN''"]
        GetOrFile_unset [of env "''SAKURACLOUD_ACCESS_TOKEN_SECRET''"]
      by auto
    then show ?thesis by (rule general)
  qed
  have both: "NewDNSProvider L S env g =
        NewDNSProviderConfig L S (Some ((NewDefaultConfig L env)\<lparr>Token := t, Secret := s\<rparr>)) g"
    if "vars env ''SAKURACLOUD_ACCESS_TOKEN'' = Some t \<and> t \<noteq> ''''
        \<and> vars env ''SAKURACLOUD_ACCESS_TOKEN_SECRET'' = Some s \<and> s \<noteq> ''''"
  proof -
    from that have "GetOrFile env EnvAccessToken = t" "GetOrFile env EnvAccessTokenSecret = s"
      "t \<noteq> []" "s \<noteq> []"
      by (simp_all add: names GetOrFile_set)
    then show ?thesis
      using NewDNSProvider_resolved [of env L S g] by simp
  qed
  show ?thesis using general unset both by blast
qed

theorem NewDNSProvider_takes_credentials_from_environment_witness:
  "Getenv empty_env ''SAKURACLOUD_ACCESS_TOKEN'' = ''''
   \<and> Getenv empty_env ''SAKURACLOUD_ACCESS_TOKEN_FILE'' = ''''
   \<and> GetOrFile empty_env ''SAKURACLOUD_ACCESS_TOKEN'' = ''''
   \<and> (\<exists>e. NewDNSProvider example_lego example_sacloud empty_env example_globals =
          (Inl (Errorf_w ''sakuracloud: '' e), example_globals))
   \<and> vars example_env ''SAKURACLOUD_ACCESS_TOKEN'' = Some ''tok''
   \<and> vars example_env ''SAKURACLOUD_ACCESS_TOKEN_SECRET'' = Some ''sec''
   \<and> NewDNSProvider example_lego example_sacloud example_env example_globals =
       NewDNSProviderConfig example_lego example_sacloud
         (Some ((NewDefaultConfig example_lego example_env)\<lparr>Token := ''tok'', Secret := ''sec''\<rparr>))
         example_globals"
proof -
  have e: "Getenv empty_env ''SAKURACLOUD_ACCESS_TOKEN'' = ''''"
    "Getenv empty_env ''SAKURACLOUD_ACCESS_TOKEN_FILE'' = ''''"
    "GetOrFile empty_env ''SAKURACLOUD_ACCESS_TOKEN'' = ''''"
    by (simp_all add: empty_env_def Getenv_def index_def GetOrFile_def)
  have x: "vars example_env ''SAKURACLOUD_ACCESS_TOKEN'' = Some ''tok''"
    "vars example_env ''SAKURACLOUD_ACCESS_TOKEN_SECRET'' = Some ''sec''"
    by (simp_all add: example_env_def)
  note em = NewDNSProvider_takes_credentials_from_environment
      [where env = empty_env and L = example_lego and S = example_sacloud
         and g = example_globals and t = "[]" and s = "[]"]
  note ex = NewDNSProvider_takes_credentials_from_environment
      [where env = example_env and L = example_lego and S = example_sacloud
         and g = example_globals and t = "''tok''" and s = "''sec''"]
  have r1: "\<exists>e. NewDNSProvider example_lego example_sacloud empty_env example_globals =
          (Inl (Errorf_w ''sakuracloud: '' e), example_globals)"
    using em e by blast
  have r2: "NewDNSProvider example_lego example_sacloud example_env example_globals =
       NewDNSProviderConfig example_lego example_sacloud
         (Some ((NewDefaultConfig example_lego example_env)\<lparr>Token := ''tok'', Secret := ''sec''\<rparr>))
         example_globals"
    using ex x by simp
  show ?thesis using e x r1 r2 by blast
qed

theorem NewDNSProvider_succeeds_with_the_token_variable_unset:
  "vars example_env_file ''SAKURACLOUD_ACCESS_TOKEN'' = None
   \<and> map_sum Error config
       (fst (NewDNSProvider example_lego example_sacloud example_env_file example_globals)) =
       Inr \<lparr>Token = ''tok'', Secret = ''sec'', PropagationTimeout = 60000000000,
            PollingInterval = 2000000000, TTL = 300,
            HTTPClient = Some \<lparr>Client_Timeout = 10000000000\<rparr>\<rparr>"
proof -
  have u: "vars example_env_file ''SAKURACLOUD_ACCESS_TOKEN'' = None"
    by (simp add: example_env_file_def)
  have names: "EnvAccessToken = ''SAKURACLOUD_ACCESS_TOKEN''"
    "EnvAccessTokenSecret = ''SAKURACLOUD_ACCESS_TOKEN_SECRET''"
    by (simp_all add: EnvAccessToken_def EnvAccessTokenSecret_def envNamespace_def)
  have tok: "GetOrFile example_env_file ''SAKURACLOUD_ACCESS_TOKEN'' = ''tok''"
    by (simp add: GetOrFile_def Getenv_def index_def example_env_file_def TrimSuffix_def
        HasSuffix_def)
  have sec: "GetOrFile example_env_file ''SAKURACLOUD_ACCESS_TOKEN_SECRET'' = ''sec''"
    by (simp add: GetOrFile_def Getenv_def index_def example_env_file_def)
  have cfg: "NewDefaultConfig example_lego example_env_file =
      \<lparr>Token = '''', Secret = '''', PropagationTimeout = 60000000000,
       PollingInterval = 2000000000, TTL = 300,
       HTTPClient = Some \<lparr>Client_Timeout = 10000000000\<rparr>\<rparr>"
    by (simp add: NewDefaultConfig_def GetOrDefaultInt_def GetOrDefaultSecond_def GetOrFile_def
        Getenv_def index_def example_env_file_def example_lego_def Atoi_def number_def
        in_int_range_def digit_def TrimSuffix_def HasSuffix_def Second_def
        EnvTTL_def EnvPropagationTimeout_def EnvPollingInterval_def EnvHTTPTimeout_def
        envNamespace_def)
  have "NewDNSProvider example_lego example_sacloud example_env_file example_globals =
      NewDNSProviderConfig example_lego example_sacloud
        (Some ((NewDefaultConfig example_lego example_env_file)\<lparr>Token := ''tok'', Secret := ''sec''\<rparr>))
        example_globals"
    using NewDNSProvider_resolved [of example_env_file example_lego example_sacloud example_globals]
    by (simp add: names tok sec)
  then have "fst (NewDNSProvider example_lego example_sacloud example_env_file example_globals) =
      Inr \<lparr>config = (NewDefaultConfig example_lego example_env_file)\<lparr>Token := ''tok'', Secret := ''sec''\<rparr>,
           client = NewDNSOp example_sacloud
             (fst (newCaller example_sacloud
                (MergeOptions example_sacloud
                   [example_options,
                    provider_options example_lego example_sacloud
                      ((NewDefaultConfig example_lego example_env_file)\<lparr>Token := ''tok'', Secret := ''sec''\<rparr>)])
                example_globals))\<rparr>"
    by (simp add: NewDNSProviderConfig_built [where dopt = example_options] example_sacloud_def)
  then show ?thesis using u by (simp add: cfg)
qed

end
